theory Spec2Isabelle
  imports Main
begin

section \<open>Shared vocabulary of the call-control workflow\<close>

subsection \<open>Dynamic values and the output envelope\<close>

text \<open>
  The metadata of a \<open>shared.WorkflowOutput\<close> maps keys to Go interface values.  The
  code distinguishes three shapes of such a value: the nil interface (what a lookup of an
  absent key yields as well), a string (the only shape the type assertion \<open>.(string)\<close>
  accepts), and any other dynamic value, of a type \<open>'v\<close> left open.
\<close>

datatype 'v any = ANil | AStr string | AOther 'v

text \<open>
  A Go map is a reference that may be nil; \<open>None\<close> is the nil map, \<open>Some m\<close> a map
  made by \<open>make\<close> or by a decoder.
\<close>

type_synonym 'v Metadata = "(string \<rightharpoonup> 'v any) option"

record 'v WorkflowOutput =
  Success :: bool
  Metadata :: "'v Metadata"

text \<open>
  The index expression \<open>m[k]\<close>: the zero value (the nil interface) for an absent key and
  for every key of a nil map.
\<close>

definition Metadata_index :: "'v Metadata \<Rightarrow> string \<Rightarrow> 'v any" where
  "Metadata_index md k =
     (case md of
        None \<Rightarrow> ANil
      | Some m \<Rightarrow> (case m k of None \<Rightarrow> ANil | Some v \<Rightarrow> v))"

text \<open>
  The assignment \<open>m[k] = v\<close>: Go panics on a nil map, which is the result \<open>None\<close> here.
\<close>

definition Metadata_assign :: "'v Metadata \<Rightarrow> string \<Rightarrow> 'v any \<Rightarrow> 'v Metadata option" where
  "Metadata_assign md k v =
     (case md of
        None \<Rightarrow> None
      | Some m \<Rightarrow> Some (Some (m(k \<mapsto> v))))"

text \<open>
  The single-valued type assertion \<open>x.(string)\<close>: it yields the string or panics
  (\<open>None\<close>), on the nil interface as on any value of another type.
\<close>

fun assert_string :: "'v any \<Rightarrow> string option" where
  "assert_string (AStr s) = Some s"
| "assert_string ANil = None"
| "assert_string (AOther v) = None"

subsection \<open>Errors\<close>

text \<open>
  Modelled from the spec: the constructors \<open>shared.NewWorkflowInputError\<close> and
  \<open>shared.RequireField\<close> are called by the code but declared elsewhere.  The input error
  carries the message it is built from, the missing-field error the name of the field.
  \<open>EngineError\<close> stands for every error that reaches the code from outside (the switch
  client, the execution engine, another activity).
\<close>

datatype error =
    WorkflowInputError string
  | RequireField string
  | EngineError string

text \<open>
  What a handler does in the end: it returns an output and an error (\<open>None\<close> is Go's
  nil error), or a run-time panic unwinds it.
\<close>

datatype 'v outcome = Panicked | Returned "'v WorkflowOutput" "error option"

subsection \<open>Constants of package shared\<close>

text \<open>
  Modelled from the spec: the metadata keys and the action literals are constants of
  package \<open>shared\<close>, whose declarations are not among the source files.  The spec lists
  the recognised metadata keys (\<open>action\<close>, \<open>destination\<close>, \<open>gateway\<close>, \<open>profile\<close>,
  \<open>uid\<close>, \<open>hangupCause\<close>, \<open>message\<close>) and the action literals (\<open>"bridge"\<close>,
  \<open>"hangup"\<close>, \<open>"originate"\<close>).
\<close>

definition shared_Action :: string where "shared_Action = ''action''"
definition shared_Destination :: string where "shared_Destination = ''destination''"
definition shared_Gateway :: string where "shared_Gateway = ''gateway''"
definition shared_Profile :: string where "shared_Profile = ''profile''"
definition shared_Uid :: string where "shared_Uid = ''uid''"
definition shared_HangupCause :: string where "shared_HangupCause = ''hangupCause''"
definition shared_Message :: string where "shared_Message = ''message''"

text \<open>The action values the workflow switches on.\<close>

definition shared_Bridge :: string where "shared_Bridge = ''bridge''"
definition shared_Hangup :: string where "shared_Hangup = ''hangup''"
definition shared_Originate :: string where "shared_Originate = ''originate''"

text \<open>The action keys the processor factory switches on.\<close>

definition shared_ActionOriginate :: string where "shared_ActionOriginate = ''originate''"
definition shared_ActionBridge :: string where "shared_ActionBridge = ''bridge''"
definition shared_ActionHangup :: string where "shared_ActionHangup = ''hangup''"

section \<open>The processor factory\<close>

text \<open>
  \<open>FreeswitchProcessorFactoryImpl\<close> holds the switch client, of a type \<open>'c\<close> left open,
  and hands it to the processor it creates.  The three processor constructors are declared
  outside the source files; a processor is the tag of its constructor with the client it
  was given.
\<close>

record 'c FreeswitchProcessorFactoryImpl =
  fsClient :: 'c

datatype 'c FreeswitchActivityProcessor =
    OriginateProcessor 'c
  | BridgeProcessor 'c
  | HangupProcessor 'c

definition NewFreeswitchProcessorFactory :: "'c \<Rightarrow> 'c FreeswitchProcessorFactoryImpl" where
  "NewFreeswitchProcessorFactory c = \<lparr>fsClient = c\<rparr>"

text \<open>
  The switch of \<open>CreateActivityProcessor\<close>, case by case in the order of the source.  The
  result is Go's pair: a processor or nil, and an error or nil.
\<close>

definition CreateActivityProcessor ::
  "'c FreeswitchProcessorFactoryImpl \<Rightarrow> string \<Rightarrow>
     'c FreeswitchActivityProcessor option \<times> error option" where
  "CreateActivityProcessor f s =
     (if s = shared_ActionOriginate then (Some (OriginateProcessor (fsClient f)), None)
      else if s = shared_ActionBridge then (Some (BridgeProcessor (fsClient f)), None)
      else if s = shared_ActionHangup then (Some (HangupProcessor (fsClient f)), None)
      else (None, Some (WorkflowInputError ''unsupported action'')))"

section \<open>The bridge activity\<close>

record BridgeActivityInput =
  Originator :: string
  Originatee :: string

record Command =
  AppName :: string
  AppArgs :: string

text \<open>
  \<open>SocketClient.Api\<close> answers a command with a response and an error.  The response is
  kept as the dynamic value it becomes when the handler stores it in the metadata.
\<close>

type_synonym 'v SwitchApi = "Command \<Rightarrow> 'v any \<times> error option"

text \<open>\<open>fmt.Sprintf("%v %v", a, b)\<close> on two strings: both verbatim, one space between.\<close>

definition Sprintf_v_v :: "string \<Rightarrow> string \<Rightarrow> string" where
  "Sprintf_v_v a b = a @ '' '' @ b"

text \<open>
  \<open>BridgeActivity.Handler\<close>.  \<open>shared.Convert\<close> is declared outside the source files and
  enters as the parameter \<open>convert\<close>: \<open>None\<close> when it reports failure, the typed input
  otherwise.  Beside its outcome the handler yields the commands it sent to the switch, in
  order.
\<close>

definition BridgeActivity_Handler ::
  "('p \<Rightarrow> BridgeActivityInput option) \<Rightarrow> 'v SwitchApi \<Rightarrow> 'p \<Rightarrow> Command list \<times> 'v outcome" where
  "BridgeActivity_Handler convert api i =
     (let output = \<lparr>Success = False, Metadata = Some Map.empty\<rparr> in
      case convert i of
        None \<Rightarrow>
          ([], Returned output (Some (WorkflowInputError ''Cannot cast input to BridgeActivityInput'')))
      | Some input \<Rightarrow>
          (let cmd = \<lparr>AppName = ''uuid_bridge'',
                      AppArgs = Sprintf_v_v (Originator input) (Originatee input)\<rparr>;
               (res, err) = api cmd
           in if err \<noteq> None then ([cmd], Returned output err)
              else
                (let output = output\<lparr>Success := True\<rparr> in
                 case Metadata_assign (Metadata output) shared_Message res of
                   None \<Rightarrow> ([cmd], Panicked)
                 | Some md \<Rightarrow> ([cmd], Returned (output\<lparr>Metadata := md\<rparr>) None))))"

section \<open>The inbound workflow\<close>

subsection \<open>Inputs of the workflow and of the activities it schedules\<close>

text \<open>\<open>time.Duration\<close> is a count of nanoseconds; no arithmetic is done on it here.\<close>

type_synonym Duration = int

definition Second :: Duration where
  "Second = 1000000000"

record InboundWorkflowInput =
  ANI :: string
  DNIS :: string
  Domain :: string
  SessionId :: string
  Initializer :: string
  Timeout :: Duration

text \<open>
  The input structs of the session-init, hangup and originate activities are declared
  outside the source files; each has the fields the workflow sets.  A field the workflow
  leaves out of the literal holds Go's zero value, the empty string.
\<close>

record SessionInitActivityInput =
  ANI :: string
  DNIS :: string
  Domain :: string
  Initializer :: string
  Timeout :: Duration

record HangupActivityInput =
  SessionId :: string
  HangupCause :: string

text \<open>
  \<open>freeswitch.Inbound\<close> is a constant of a type declared outside the source files: one
  of the two directions of a leg.
\<close>

datatype Direction = Inbound | Outbound

record OriginateActivityInput =
  Timeout :: Duration
  Destination :: string
  Gateway :: string
  AllowReject :: bool
  AutoAnswer :: bool
  Direction :: Direction
  Profile :: string

record ActivityOptions =
  ScheduleToStartTimeout :: Duration
  StartToCloseTimeout :: Duration

subsection \<open>The execution engine\<close>

text \<open>An activity the workflow schedules, with the input it passes.\<close>

datatype activity_call =
    SessionInitCall SessionInitActivityInput
  | HangupCall HangupActivityInput
  | OriginateCall OriginateActivityInput
  | BridgeCall BridgeActivityInput

text \<open>
  \<open>workflow.ExecuteActivity(ctx, handler, input).Get(ctx, &output)\<close> hands the call to
  the engine, waits, and lets the engine write the result through the pointer to the
  workflow's \<open>output\<close> variable; it returns the error.  The engine, and the activities
  behind it, enter as a parameter: from the activity options of the context, the call and
  the current value of \<open>output\<close> to the new value of \<open>output\<close> and the error.  Nothing
  is assumed about what the engine writes.
\<close>

type_synonym 'v engine =
  "ActivityOptions \<Rightarrow> activity_call \<Rightarrow> 'v WorkflowOutput \<Rightarrow> 'v WorkflowOutput \<times> error option"

text \<open>
  One completed activity step of a run: the call, and what \<open>Get\<close> left in \<open>output\<close>
  and returned.
\<close>

datatype 'v step =
  Step (call: activity_call) (delivered: "'v WorkflowOutput") (failure: "error option")

text \<open>A step that failed or was unsuccessful.\<close>

definition unsuccessful :: "'v step \<Rightarrow> bool" where
  "unsuccessful st \<longleftrightarrow> failure st \<noteq> None \<or> \<not> Success (delivered st)"

subsection \<open>The handler\<close>

text \<open>The output every handler starts from: \<open>Success: false\<close> and a fresh, empty map.\<close>

definition initial_output :: "'v WorkflowOutput" where
  "initial_output = \<lparr>Success = False, Metadata = Some Map.empty\<rparr>"

text \<open>The options set on the context before the first activity.\<close>

definition activity_options :: "InboundWorkflowInput \<Rightarrow> ActivityOptions" where
  "activity_options input =
     \<lparr>ScheduleToStartTimeout = Second,
      StartToCloseTimeout = InboundWorkflowInput.Timeout input\<rparr>"

text \<open>The input the workflow builds for the session-init activity.\<close>

definition session_init_input :: "InboundWorkflowInput \<Rightarrow> SessionInitActivityInput" where
  "session_init_input input =
     \<lparr>SessionInitActivityInput.ANI = InboundWorkflowInput.ANI input,
      SessionInitActivityInput.DNIS = InboundWorkflowInput.DNIS input,
      SessionInitActivityInput.Domain = InboundWorkflowInput.Domain input,
      SessionInitActivityInput.Initializer = InboundWorkflowInput.Initializer input,
      SessionInitActivityInput.Timeout = InboundWorkflowInput.Timeout input\<rparr>"

text \<open>
  The idiom \<open>if m[k] != nil { field = m[k].(string) }\<close> on a field that holds \<open>old\<close>:
  the field afterwards, or \<open>None\<close> when the assertion panics.
\<close>

definition assign_if_present :: "'v any \<Rightarrow> string \<Rightarrow> string option" where
  "assign_if_present v old = (if v \<noteq> ANil then assert_string v else Some old)"

text \<open>
  \<open>InboundWorkflow.Handler\<close> is one Go function; it is written here as its successive
  stages, innermost first, each with the lines of the source file it covers.  Every stage takes the steps completed so far and yields the
  steps of the whole run with the outcome.  The logger calls have no effect on either.

  Lines 140 to 155, after the originate activity has succeeded: the guard on \<open>uid\<close>,
  the bridge input with its type assertion, the bridge activity; then line 162.
\<close>

definition bridge_stage ::
  "'v engine \<Rightarrow> ActivityOptions \<Rightarrow> InboundWorkflowInput \<Rightarrow> 'v step list \<Rightarrow>
     'v WorkflowOutput \<Rightarrow> 'v step list \<times> 'v outcome" where
  "bridge_stage exec opts input steps output =
     (if Metadata_index (Metadata output) shared_Uid = ANil
      then (steps, Returned output (Some (RequireField ''uid'')))
      else
        (case assert_string (Metadata_index (Metadata output) shared_Uid) of
           None \<Rightarrow> (steps, Panicked)
         | Some uid \<Rightarrow>
             (let bi = \<lparr>Originator = InboundWorkflowInput.SessionId input, Originatee = uid\<rparr>;
                  (output', err) = exec opts (BridgeCall bi) output;
                  steps' = steps @ [Step (BridgeCall bi) output' err]
              in if err \<noteq> None \<or> \<not> Success output' then (steps', Returned output' err)
                 else (steps', Returned output' None))))"

text \<open>
  The struct literal of lines 121 to 128, from the three asserted strings; \<open>p\<close> is the
  profile, empty unless lines 129 to 131 set it.
\<close>

definition originate_input ::
  "InboundWorkflowInput \<Rightarrow> string \<Rightarrow> string \<Rightarrow> string \<Rightarrow> OriginateActivityInput" where
  "originate_input input d g p =
     \<lparr>OriginateActivityInput.Timeout = InboundWorkflowInput.Timeout input,
      Destination = d,
      Gateway = g,
      AllowReject = True,
      AutoAnswer = False,
      Direction = Inbound,
      Profile = p\<rparr>"

text \<open>
  Lines 111 to 138, the case \<open>shared.Originate\<close>: the guards on \<open>destination\<close> and
  \<open>gateway\<close>, the originate input with its type assertions (destination, then gateway,
  then the optional profile), the originate activity, and the check of its result.
\<close>

definition originate_branch ::
  "'v engine \<Rightarrow> ActivityOptions \<Rightarrow> InboundWorkflowInput \<Rightarrow> 'v step list \<Rightarrow>
     'v WorkflowOutput \<Rightarrow> 'v step list \<times> 'v outcome" where
  "originate_branch exec opts input steps output =
     (if Metadata_index (Metadata output) shared_Destination = ANil
      then (steps, Returned output (Some (RequireField ''destination'')))
      else if Metadata_index (Metadata output) shared_Gateway = ANil
      then (steps, Returned output (Some (RequireField ''gateway'')))
      else
        (case assert_string (Metadata_index (Metadata output) shared_Destination) of
           None \<Rightarrow> (steps, Panicked)
         | Some destination \<Rightarrow>
        (case assert_string (Metadata_index (Metadata output) shared_Gateway) of
           None \<Rightarrow> (steps, Panicked)
         | Some gateway \<Rightarrow>
        (case assign_if_present (Metadata_index (Metadata output) shared_Profile) [] of
           None \<Rightarrow> (steps, Panicked)
         | Some profile \<Rightarrow>
             (let oi = originate_input input destination gateway profile;
                  (output', err) = exec opts (OriginateCall oi) output;
                  steps' = steps @ [Step (OriginateCall oi) output' err]
              in if err \<noteq> None \<or> \<not> Success output' then (steps', Returned output' err)
                 else bridge_stage exec opts input steps' output')))))"

text \<open>
  Lines 99 to 109, the case \<open>shared.Hangup\<close>: the hangup input with the optional cause
  and its type assertion, the hangup activity; then line 162.
\<close>

definition hangup_branch ::
  "'v engine \<Rightarrow> ActivityOptions \<Rightarrow> InboundWorkflowInput \<Rightarrow> 'v step list \<Rightarrow>
     'v WorkflowOutput \<Rightarrow> 'v step list \<times> 'v outcome" where
  "hangup_branch exec opts input steps output =
     (case assign_if_present (Metadata_index (Metadata output) shared_HangupCause) [] of
        None \<Rightarrow> (steps, Panicked)
      | Some cause \<Rightarrow>
          (let hi = \<lparr>HangupActivityInput.SessionId = InboundWorkflowInput.SessionId input,
                     HangupCause = cause\<rparr>;
               (output', err) = exec opts (HangupCall hi) output;
               steps' = steps @ [Step (HangupCall hi) output' err]
           in if err \<noteq> None then (steps', Returned output' err)
              else (steps', Returned output' None)))"

text \<open>
  Lines 95 to 162, the switch on the asserted action, cases in the order of the source,
  with the final return for the cases that only break.
\<close>

definition dispatch ::
  "'v engine \<Rightarrow> ActivityOptions \<Rightarrow> InboundWorkflowInput \<Rightarrow> 'v step list \<Rightarrow>
     'v WorkflowOutput \<Rightarrow> 'v step list \<times> 'v outcome" where
  "dispatch exec opts input steps output =
     (case assert_string (Metadata_index (Metadata output) shared_Action) of
        None \<Rightarrow> (steps, Panicked)
      | Some action \<Rightarrow>
          if action = shared_Bridge then (steps, Returned output None)
          else if action = shared_Hangup then hangup_branch exec opts input steps output
          else if action = shared_Originate then originate_branch exec opts input steps output
          else (steps, Returned output None))"

text \<open>
  Lines 65 to 93: conversion of the payload (\<open>shared.Convert\<close>, declared outside the
  source files, is the parameter \<open>convert\<close>), the activity options, the session-init
  activity and the check of its result; then the switch.
\<close>

definition InboundWorkflow_Handler ::
  "('p \<Rightarrow> InboundWorkflowInput option) \<Rightarrow> 'v engine \<Rightarrow> 'p \<Rightarrow> 'v step list \<times> 'v outcome" where
  "InboundWorkflow_Handler convert exec i =
     (let output = initial_output in
      case convert i of
        None \<Rightarrow>
          ([], Returned output
                 (Some (WorkflowInputError ''Cannot cast input to InboundWorkflowInput'')))
      | Some input \<Rightarrow>
          (let opts = activity_options input;
               si = SessionInitCall (session_init_input input);
               (output', err) = exec opts si output;
               steps = [Step si output' err]
           in if err \<noteq> None \<or> \<not> Success output' then (steps, Returned output' err)
              else dispatch exec opts input steps output'))"

section \<open>Sample payloads, engines and switches\<close>

text \<open>
  Concrete inputs on which the handlers are run below.  A payload is a typed input of
  either handler or something that is neither; each conversion accepts its own shape only.
\<close>

datatype payload =
    InboundPayload InboundWorkflowInput
  | BridgePayload BridgeActivityInput
  | Malformed

fun convert_inbound :: "payload \<Rightarrow> InboundWorkflowInput option" where
  "convert_inbound (InboundPayload input) = Some input"
| "convert_inbound (BridgePayload input) = None"
| "convert_inbound Malformed = None"

fun convert_bridge :: "payload \<Rightarrow> BridgeActivityInput option" where
  "convert_bridge (BridgePayload input) = Some input"
| "convert_bridge (InboundPayload input) = None"
| "convert_bridge Malformed = None"

definition sample_call :: InboundWorkflowInput where
  "sample_call =
     \<lparr>InboundWorkflowInput.ANI = ''1001'',
      InboundWorkflowInput.DNIS = ''2002'',
      InboundWorkflowInput.Domain = ''pbx.example'',
      InboundWorkflowInput.SessionId = ''S1'',
      InboundWorkflowInput.Initializer = ''default'',
      InboundWorkflowInput.Timeout = 30000000000\<rparr>"

text \<open>A switch that acknowledges every command, and one whose socket is closed.\<close>

definition api_ok :: "nat SwitchApi" where
  "api_ok cmd = (AStr ''+OK'', None)"

definition api_down :: "nat SwitchApi" where
  "api_down cmd = (ANil, Some (EngineError ''socket closed''))"

text \<open>
  An engine that answers each kind of activity with a fixed result, which replaces the
  workflow's \<open>output\<close>.
\<close>

definition scripted_engine ::
  "'v WorkflowOutput \<times> error option \<Rightarrow> 'v WorkflowOutput \<times> error option \<Rightarrow>
   'v WorkflowOutput \<times> error option \<Rightarrow> 'v WorkflowOutput \<times> error option \<Rightarrow> 'v engine" where
  "scripted_engine si hu orig br opts c output =
     (case c of
        SessionInitCall x \<Rightarrow> si
      | HangupCall x \<Rightarrow> hu
      | OriginateCall x \<Rightarrow> orig
      | BridgeCall x \<Rightarrow> br)"

text \<open>Outputs that the session-init activity may deliver.\<close>

definition originate_to_gateway :: "nat WorkflowOutput" where
  "originate_to_gateway =
     \<lparr>Success = True,
      Metadata = Some [shared_Action \<mapsto> AStr ''originate'',
                       shared_Destination \<mapsto> AStr ''D'',
                       shared_Gateway \<mapsto> AStr ''G'']\<rparr>"

definition originate_without_destination :: "nat WorkflowOutput" where
  "originate_without_destination =
     \<lparr>Success = True, Metadata = Some [shared_Action \<mapsto> AStr ''originate'']\<rparr>"

definition originate_without_gateway :: "nat WorkflowOutput" where
  "originate_without_gateway =
     \<lparr>Success = True,
      Metadata = Some [shared_Action \<mapsto> AStr ''originate'',
                       shared_Destination \<mapsto> AOther 5]\<rparr>"

definition originate_destination_number :: "nat WorkflowOutput" where
  "originate_destination_number =
     \<lparr>Success = True,
      Metadata = Some [shared_Action \<mapsto> AStr ''originate'',
                       shared_Destination \<mapsto> AOther 5,
                       shared_Gateway \<mapsto> AStr ''G'']\<rparr>"

definition hangup_normal_clearing :: "nat WorkflowOutput" where
  "hangup_normal_clearing =
     \<lparr>Success = True,
      Metadata = Some [shared_Action \<mapsto> AStr ''hangup'',
                       shared_HangupCause \<mapsto> AStr ''NORMAL_CLEARING'']\<rparr>"

definition hangup_without_cause :: "nat WorkflowOutput" where
  "hangup_without_cause =
     \<lparr>Success = True, Metadata = Some [shared_Action \<mapsto> AStr ''hangup'']\<rparr>"

definition hangup_cause_number :: "nat WorkflowOutput" where
  "hangup_cause_number =
     \<lparr>Success = True,
      Metadata = Some [shared_Action \<mapsto> AStr ''hangup'',
                       shared_HangupCause \<mapsto> AOther 16]\<rparr>"

definition action_bridge :: "nat WorkflowOutput" where
  "action_bridge = \<lparr>Success = True, Metadata = Some [shared_Action \<mapsto> AStr ''bridge'']\<rparr>"

definition action_transfer :: "nat WorkflowOutput" where
  "action_transfer =
     \<lparr>Success = True, Metadata = Some [shared_Action \<mapsto> AStr ''transfer'']\<rparr>"

definition action_number :: "nat WorkflowOutput" where
  "action_number = \<lparr>Success = True, Metadata = Some [shared_Action \<mapsto> AOther 7]\<rparr>"

definition action_missing :: "nat WorkflowOutput" where
  "action_missing = \<lparr>Success = True, Metadata = Some Map.empty\<rparr>"

text \<open>Outputs that the originate, bridge and hangup activities may deliver.\<close>

definition leg_created :: "nat WorkflowOutput" where
  "leg_created = \<lparr>Success = True, Metadata = Some [shared_Uid \<mapsto> AStr ''X'']\<rparr>"

definition leg_without_uid :: "nat WorkflowOutput" where
  "leg_without_uid = \<lparr>Success = True, Metadata = Some Map.empty\<rparr>"

definition leg_uid_number :: "nat WorkflowOutput" where
  "leg_uid_number = \<lparr>Success = True, Metadata = Some [shared_Uid \<mapsto> AOther 9]\<rparr>"

definition bridged :: "nat WorkflowOutput" where
  "bridged = \<lparr>Success = True, Metadata = Some [shared_Message \<mapsto> AStr ''+OK'']\<rparr>"

definition not_bridged :: "nat WorkflowOutput" where
  "not_bridged = \<lparr>Success = False, Metadata = Some Map.empty\<rparr>"

definition hung_up :: "nat WorkflowOutput" where
  "hung_up = \<lparr>Success = True, Metadata = Some Map.empty\<rparr>"

definition not_hung_up :: "nat WorkflowOutput" where
  "not_hung_up = \<lparr>Success = False, Metadata = Some Map.empty\<rparr>"

text \<open>The engines of the sample runs, one per scenario.\<close>

definition engine_originate :: "nat engine" where
  "engine_originate =
     scripted_engine (originate_to_gateway, None) (hung_up, None) (leg_created, None)
       (bridged, None)"

definition engine_bridge_refused :: "nat engine" where
  "engine_bridge_refused =
     scripted_engine (originate_to_gateway, None) (hung_up, None) (leg_created, None)
       (not_bridged, None)"

definition engine_no_uid :: "nat engine" where
  "engine_no_uid =
     scripted_engine (originate_to_gateway, None) (hung_up, None) (leg_without_uid, None)
       (bridged, None)"

definition engine_uid_number :: "nat engine" where
  "engine_uid_number =
     scripted_engine (originate_to_gateway, None) (hung_up, None) (leg_uid_number, None)
       (bridged, None)"

definition engine_no_destination :: "nat engine" where
  "engine_no_destination =
     scripted_engine (originate_without_destination, None) (hung_up, None) (leg_created, None)
       (bridged, None)"

definition engine_no_gateway :: "nat engine" where
  "engine_no_gateway =
     scripted_engine (originate_without_gateway, None) (hung_up, None) (leg_created, None)
       (bridged, None)"

definition engine_destination_number :: "nat engine" where
  "engine_destination_number =
     scripted_engine (originate_destination_number, None) (hung_up, None) (leg_created, None)
       (bridged, None)"

definition engine_hangup :: "nat engine" where
  "engine_hangup =
     scripted_engine (hangup_normal_clearing, None) (not_hung_up, None) (leg_created, None)
       (bridged, None)"

definition engine_hangup_no_cause :: "nat engine" where
  "engine_hangup_no_cause =
     scripted_engine (hangup_without_cause, None) (hung_up, None) (leg_created, None)
       (bridged, None)"

definition engine_hangup_cause_number :: "nat engine" where
  "engine_hangup_cause_number =
     scripted_engine (hangup_cause_number, None) (hung_up, None) (leg_created, None)
       (bridged, None)"

definition engine_action_bridge :: "nat engine" where
  "engine_action_bridge =
     scripted_engine (action_bridge, None) (hung_up, None) (leg_created, None) (bridged, None)"

definition engine_action_transfer :: "nat engine" where
  "engine_action_transfer =
     scripted_engine (action_transfer, None) (hung_up, None) (leg_created, None) (bridged, None)"

definition engine_action_number :: "nat engine" where
  "engine_action_number =
     scripted_engine (action_number, None) (hung_up, None) (leg_created, None) (bridged, None)"

definition engine_action_missing :: "nat engine" where
  "engine_action_missing =
     scripted_engine (action_missing, None) (hung_up, None) (leg_created, None) (bridged, None)"

definition session_init_timeout :: "nat WorkflowOutput" where
  "session_init_timeout = \<lparr>Success = False, Metadata = Some Map.empty\<rparr>"

definition engine_session_init_timed_out :: "nat engine" where
  "engine_session_init_timed_out =
     scripted_engine (session_init_timeout, Some (EngineError ''timeout'')) (hung_up, None)
       (leg_created, None) (bridged, None)"

section \<open>Basic facts\<close>

lemmas shared_keys =
  shared_Action_def shared_Destination_def shared_Gateway_def shared_Profile_def
  shared_Uid_def shared_HangupCause_def shared_Message_def

lemmas shared_actions = shared_Bridge_def shared_Hangup_def shared_Originate_def

lemmas shared_action_keys =
  shared_ActionOriginate_def shared_ActionBridge_def shared_ActionHangup_def

lemmas sample_outputs =
  originate_to_gateway_def originate_without_destination_def originate_without_gateway_def
  originate_destination_number_def hangup_normal_clearing_def hangup_without_cause_def
  hangup_cause_number_def action_bridge_def action_transfer_def action_number_def
  action_missing_def leg_created_def leg_without_uid_def leg_uid_number_def bridged_def
  not_bridged_def hung_up_def not_hung_up_def session_init_timeout_def

lemmas sample_engines =
  engine_originate_def engine_bridge_refused_def engine_no_uid_def engine_uid_number_def
  engine_no_destination_def engine_no_gateway_def engine_destination_number_def
  engine_hangup_def engine_hangup_no_cause_def engine_hangup_cause_number_def
  engine_action_bridge_def engine_action_transfer_def engine_action_number_def
  engine_action_missing_def engine_session_init_timed_out_def

lemma assign_if_present_simps [simp]:
  "assign_if_present ANil old = Some old"
  "assign_if_present (AStr s) old = Some s"
  "assign_if_present (AOther v) old = None"
  by (simp_all add: assign_if_present_def)

lemma assert_string_eq_Some [simp]: "assert_string v = Some s \<longleftrightarrow> v = AStr s"
  by (cases v) auto



lemma assign_if_present_eq_None: "assign_if_present v old = None \<longleftrightarrow> (\<exists>x. v = AOther x)"
  by (cases v) auto

subsection \<open>Each stage of the workflow, branch by branch\<close>

lemma bridge_stage_no_uid:
  "Metadata_index (Metadata output) shared_Uid = ANil \<Longrightarrow>
   bridge_stage exec opts input steps output
     = (steps, Returned output (Some (RequireField ''uid'')))"
  by (simp add: bridge_stage_def)

lemma bridge_stage_uid_not_string:
  "Metadata_index (Metadata output) shared_Uid = AOther v \<Longrightarrow>
   bridge_stage exec opts input steps output = (steps, Panicked)"
  by (simp add: bridge_stage_def)

lemma bridge_stage_uid:
  "Metadata_index (Metadata output) shared_Uid = AStr uid \<Longrightarrow>
   exec opts (BridgeCall \<lparr>Originator = InboundWorkflowInput.SessionId input, Originatee = uid\<rparr>)
     output = (output', err) \<Longrightarrow>
   bridge_stage exec opts input steps output
     = (steps @ [Step (BridgeCall \<lparr>Originator = InboundWorkflowInput.SessionId input,
                                    Originatee = uid\<rparr>) output' err],
        Returned output' err)"
  by (auto simp add: bridge_stage_def Let_def)

lemma hangup_branch_cause_not_string:
  "Metadata_index (Metadata output) shared_HangupCause = AOther v \<Longrightarrow>
   hangup_branch exec opts input steps output = (steps, Panicked)"
  by (simp add: hangup_branch_def)

lemma hangup_branch_cause:
  "assign_if_present (Metadata_index (Metadata output) shared_HangupCause) [] = Some cause \<Longrightarrow>
   exec opts (HangupCall \<lparr>HangupActivityInput.SessionId = InboundWorkflowInput.SessionId input,
                           HangupCause = cause\<rparr>) output = (output', err) \<Longrightarrow>
   hangup_branch exec opts input steps output
     = (steps @ [Step (HangupCall \<lparr>HangupActivityInput.SessionId = InboundWorkflowInput.SessionId input,
                                    HangupCause = cause\<rparr>) output' err],
        Returned output' err)"
  by (auto simp add: hangup_branch_def Let_def)

lemma originate_branch_no_destination:
  "Metadata_index (Metadata output) shared_Destination = ANil \<Longrightarrow>
   originate_branch exec opts input steps output
     = (steps, Returned output (Some (RequireField ''destination'')))"
  by (simp add: originate_branch_def)

lemma originate_branch_no_gateway:
  "Metadata_index (Metadata output) shared_Destination \<noteq> ANil \<Longrightarrow>
   Metadata_index (Metadata output) shared_Gateway = ANil \<Longrightarrow>
   originate_branch exec opts input steps output
     = (steps, Returned output (Some (RequireField ''gateway'')))"
  by (simp add: originate_branch_def)

lemma originate_branch_destination_not_string:
  "Metadata_index (Metadata output) shared_Destination = AOther v \<Longrightarrow>
   Metadata_index (Metadata output) shared_Gateway \<noteq> ANil \<Longrightarrow>
   originate_branch exec opts input steps output = (steps, Panicked)"
  by (simp add: originate_branch_def)

lemma originate_branch_gateway_not_string:
  "Metadata_index (Metadata output) shared_Destination = AStr d \<Longrightarrow>
   Metadata_index (Metadata output) shared_Gateway = AOther v \<Longrightarrow>
   originate_branch exec opts input steps output = (steps, Panicked)"
  by (simp add: originate_branch_def)

lemma originate_branch_profile_not_string:
  "Metadata_index (Metadata output) shared_Destination = AStr d \<Longrightarrow>
   Metadata_index (Metadata output) shared_Gateway = AStr g \<Longrightarrow>
   Metadata_index (Metadata output) shared_Profile = AOther v \<Longrightarrow>
   originate_branch exec opts input steps output = (steps, Panicked)"
  by (simp add: originate_branch_def)

lemma originate_branch_call:
  "Metadata_index (Metadata output) shared_Destination = AStr d \<Longrightarrow>
   Metadata_index (Metadata output) shared_Gateway = AStr g \<Longrightarrow>
   assign_if_present (Metadata_index (Metadata output) shared_Profile) [] = Some p \<Longrightarrow>
   exec opts (OriginateCall (originate_input input d g p)) output = (output', err) \<Longrightarrow>
   originate_branch exec opts input steps output
     = (if err \<noteq> None \<or> \<not> Success output'
        then (steps @ [Step (OriginateCall (originate_input input d g p)) output' err],
              Returned output' err)
        else bridge_stage exec opts input
               (steps @ [Step (OriginateCall (originate_input input d g p)) output' err]) output')"
  by (auto simp add: originate_branch_def Let_def)

lemma dispatch_action_not_string:
  "assert_string (Metadata_index (Metadata output) shared_Action) = None \<Longrightarrow>
   dispatch exec opts input steps output = (steps, Panicked)"
  by (simp add: dispatch_def)

lemma dispatch_action:
  "Metadata_index (Metadata output) shared_Action = AStr a \<Longrightarrow>
   dispatch exec opts input steps output
     = (if a = ''bridge'' then (steps, Returned output None)
        else if a = ''hangup'' then hangup_branch exec opts input steps output
        else if a = ''originate'' then originate_branch exec opts input steps output
        else (steps, Returned output None))"
  by (simp add: dispatch_def shared_actions)

lemma Handler_convert_fails:
  "convert i = None \<Longrightarrow>
   InboundWorkflow_Handler convert exec i
     = ([], Returned initial_output
              (Some (WorkflowInputError ''Cannot cast input to InboundWorkflowInput'')))"
  by (simp add: InboundWorkflow_Handler_def)

lemma Handler_session_init:
  "convert i = Some input \<Longrightarrow>
   exec (activity_options input) (SessionInitCall (session_init_input input)) initial_output
     = (output', err) \<Longrightarrow>
   InboundWorkflow_Handler convert exec i
     = (if err \<noteq> None \<or> \<not> Success output'
        then ([Step (SessionInitCall (session_init_input input)) output' err],
              Returned output' err)
        else dispatch exec (activity_options input) input
               [Step (SessionInitCall (session_init_input input)) output' err] output')"
  by (auto simp add: InboundWorkflow_Handler_def Let_def)

subsection \<open>Case analysis of a stage\<close>

lemma bridge_stage_cases:
  obtains
    (no_uid) "Metadata_index (Metadata out) shared_Uid = ANil"
      "bridge_stage exec opts input steps out
         = (steps, Returned out (Some (RequireField ''uid'')))"
  | (panic) v where "Metadata_index (Metadata out) shared_Uid = AOther v"
      "bridge_stage exec opts input steps out = (steps, Panicked)"
  | (bridge) uid output' err where "Metadata_index (Metadata out) shared_Uid = AStr uid"
      "exec opts (BridgeCall \<lparr>Originator = InboundWorkflowInput.SessionId input,
                              Originatee = uid\<rparr>) out = (output', err)"
      "bridge_stage exec opts input steps out
         = (steps @ [Step (BridgeCall \<lparr>Originator = InboundWorkflowInput.SessionId input,
                                        Originatee = uid\<rparr>) output' err],
            Returned output' err)"
proof (cases "Metadata_index (Metadata out) shared_Uid")
  case ANil
  then show ?thesis by (intro no_uid) (simp_all add: bridge_stage_no_uid)
next
  case (AStr uid)
  obtain output' err where
    "exec opts (BridgeCall \<lparr>Originator = InboundWorkflowInput.SessionId input,
                            Originatee = uid\<rparr>) out = (output', err)"
    by (cases "exec opts (BridgeCall \<lparr>Originator = InboundWorkflowInput.SessionId input,
                            Originatee = uid\<rparr>) out")
  with AStr show ?thesis by (intro bridge [of uid output' err]) (simp_all add: bridge_stage_uid)
next
  case (AOther v)
  then show ?thesis by (intro panic [of v]) (simp_all add: bridge_stage_uid_not_string)
qed

lemma hangup_branch_cases:
  obtains
    (panic) v where "Metadata_index (Metadata out) shared_HangupCause = AOther v"
      "hangup_branch exec opts input steps out = (steps, Panicked)"
  | (hangup) cause output' err where
      "assign_if_present (Metadata_index (Metadata out) shared_HangupCause) [] = Some cause"
      "exec opts (HangupCall \<lparr>HangupActivityInput.SessionId = InboundWorkflowInput.SessionId input,
                              HangupCause = cause\<rparr>) out = (output', err)"
      "hangup_branch exec opts input steps out
         = (steps @ [Step (HangupCall \<lparr>HangupActivityInput.SessionId =
                                          InboundWorkflowInput.SessionId input,
                                        HangupCause = cause\<rparr>) output' err],
            Returned output' err)"
proof (cases "assign_if_present (Metadata_index (Metadata out) shared_HangupCause) []")
  case None
  then obtain v where "Metadata_index (Metadata out) shared_HangupCause = AOther v"
    by (auto simp: assign_if_present_eq_None)
  then show ?thesis by (intro panic [of v]) (simp_all add: hangup_branch_cause_not_string)
next
  case (Some cause)
  obtain output' err where
    "exec opts (HangupCall \<lparr>HangupActivityInput.SessionId = InboundWorkflowInput.SessionId input,
                            HangupCause = cause\<rparr>) out = (output', err)"
    by (cases "exec opts (HangupCall \<lparr>HangupActivityInput.SessionId =
                            InboundWorkflowInput.SessionId input,
                            HangupCause = cause\<rparr>) out")
  with Some show ?thesis
    by (intro hangup [of cause output' err]) (simp_all add: hangup_branch_cause)
qed

lemma originate_branch_cases:
  obtains
    (no_destination) "Metadata_index (Metadata out) shared_Destination = ANil"
      "originate_branch exec opts input steps out
         = (steps, Returned out (Some (RequireField ''destination'')))"
  | (no_gateway) "Metadata_index (Metadata out) shared_Destination \<noteq> ANil"
      "Metadata_index (Metadata out) shared_Gateway = ANil"
      "originate_branch exec opts input steps out
         = (steps, Returned out (Some (RequireField ''gateway'')))"
  | (panic) k v where "k \<in> {shared_Destination, shared_Gateway, shared_Profile}"
      "Metadata_index (Metadata out) k = AOther v"
      "originate_branch exec opts input steps out = (steps, Panicked)"
  | (originate) d g p output' err where
      "Metadata_index (Metadata out) shared_Destination = AStr d"
      "Metadata_index (Metadata out) shared_Gateway = AStr g"
      "assign_if_present (Metadata_index (Metadata out) shared_Profile) [] = Some p"
      "exec opts (OriginateCall (originate_input input d g p)) out = (output', err)"
      "originate_branch exec opts input steps out
         = (if err \<noteq> None \<or> \<not> Success output'
            then (steps @ [Step (OriginateCall (originate_input input d g p)) output' err],
                  Returned output' err)
            else bridge_stage exec opts input
                   (steps @ [Step (OriginateCall (originate_input input d g p)) output' err])
                   output')"
proof (cases "Metadata_index (Metadata out) shared_Destination")
  case ANil
  then show ?thesis by (intro no_destination) (simp_all add: originate_branch_no_destination)
next
  case (AOther v)
  show ?thesis
  proof (cases "Metadata_index (Metadata out) shared_Gateway = ANil")
    case True
    with AOther show ?thesis
      by (intro no_gateway) (simp_all add: originate_branch_no_gateway)
  next
    case False
    with AOther show ?thesis
      by (intro panic [of shared_Destination v])
         (simp_all add: originate_branch_destination_not_string)
  qed
next
  case d: (AStr d)
  show ?thesis
  proof (cases "Metadata_index (Metadata out) shared_Gateway")
    case ANil
    with d show ?thesis
      by (intro no_gateway) (simp_all add: originate_branch_no_gateway)
  next
    case (AOther v)
    with d show ?thesis
      by (intro panic [of shared_Gateway v])
         (simp_all add: originate_branch_gateway_not_string)
  next
    case g: (AStr g)
    show ?thesis
    proof (cases "assign_if_present (Metadata_index (Metadata out) shared_Profile) []")
      case None
      then obtain v where "Metadata_index (Metadata out) shared_Profile = AOther v"
        by (auto simp: assign_if_present_eq_None)
      with d g show ?thesis
        by (intro panic [of shared_Profile v])
           (simp_all add: originate_branch_profile_not_string)
    next
      case (Some p)
      obtain output' err where
        "exec opts (OriginateCall (originate_input input d g p)) out = (output', err)"
        by (cases "exec opts (OriginateCall (originate_input input d g p)) out")
      with d g Some show ?thesis
        by (intro originate [of d g p output' err]) (simp_all add: originate_branch_call)
    qed
  qed
qed

lemma dispatch_cases:
  obtains
    (panic) "\<forall>a. Metadata_index (Metadata out) shared_Action \<noteq> AStr a"
      "dispatch exec opts input steps out = (steps, Panicked)"
  | (hangup) "Metadata_index (Metadata out) shared_Action = AStr ''hangup''"
      "dispatch exec opts input steps out = hangup_branch exec opts input steps out"
  | (originate) "Metadata_index (Metadata out) shared_Action = AStr ''originate''"
      "dispatch exec opts input steps out = originate_branch exec opts input steps out"
  | (no_op) a where "Metadata_index (Metadata out) shared_Action = AStr a"
      "a \<noteq> ''hangup''" "a \<noteq> ''originate''"
      "dispatch exec opts input steps out = (steps, Returned out None)"
proof (cases "Metadata_index (Metadata out) shared_Action")
  case ANil
  then show ?thesis by (intro panic) (simp_all add: dispatch_action_not_string)
next
  case (AOther v)
  then show ?thesis by (intro panic) (simp_all add: dispatch_action_not_string)
next
  case (AStr a)
  consider "a = ''hangup''" | "a = ''originate''" | "a \<noteq> ''hangup''" "a \<noteq> ''originate''"
    by blast
  then show ?thesis
  proof cases
    case 1
    with AStr show ?thesis by (intro hangup) (simp_all add: dispatch_action)
  next
    case 2
    with AStr show ?thesis by (intro originate) (simp_all add: dispatch_action)
  next
    case 3
    with AStr show ?thesis by (intro no_op [of a]) (simp_all add: dispatch_action)
  qed
qed

lemma Handler_cases:
  obtains
    (convert_fails) "convert i = None"
      "InboundWorkflow_Handler convert exec i
         = ([], Returned initial_output
                  (Some (WorkflowInputError ''Cannot cast input to InboundWorkflowInput'')))"
  | (session_init) input output' err where "convert i = Some input"
      "exec (activity_options input) (SessionInitCall (session_init_input input)) initial_output
         = (output', err)"
      "InboundWorkflow_Handler convert exec i
         = (if err \<noteq> None \<or> \<not> Success output'
            then ([Step (SessionInitCall (session_init_input input)) output' err],
                  Returned output' err)
            else dispatch exec (activity_options input) input
                   [Step (SessionInitCall (session_init_input input)) output' err] output')"
proof (cases "convert i")
  case None
  then show ?thesis by (intro convert_fails) (simp_all add: Handler_convert_fails)
next
  case (Some input)
  obtain output' err where
    "exec (activity_options input) (SessionInitCall (session_init_input input)) initial_output
       = (output', err)"
    by (cases "exec (activity_options input) (SessionInitCall (session_init_input input))
                 initial_output")
  with Some show ?thesis
    by (intro session_init [of input output' err]) (simp_all add: Handler_session_init)
qed

subsection \<open>Only the last step of a run can be unsuccessful\<close>

lemma bridge_stage_fail_fast:
  assumes "bridge_stage exec opts input steps output = (tr, res)"
    and "\<forall>s \<in> set steps. \<not> unsuccessful s"
  shows "\<forall>s \<in> set (butlast tr). \<not> unsuccessful s"
  using assms
  by (cases rule: bridge_stage_cases [where out = "output" and exec = exec and opts = opts
        and input = input and steps = steps])
     (auto dest: in_set_butlastD)

lemma hangup_branch_fail_fast:
  assumes "hangup_branch exec opts input steps output = (tr, res)"
    and "\<forall>s \<in> set steps. \<not> unsuccessful s"
  shows "\<forall>s \<in> set (butlast tr). \<not> unsuccessful s"
  using assms
  by (cases rule: hangup_branch_cases [where out = "output" and exec = exec and opts = opts
        and input = input and steps = steps])
     (auto dest: in_set_butlastD)

lemma originate_branch_fail_fast:
  assumes "originate_branch exec opts input steps output = (tr, res)"
    and "\<forall>s \<in> set steps. \<not> unsuccessful s"
  shows "\<forall>s \<in> set (butlast tr). \<not> unsuccessful s"
proof (cases rule: originate_branch_cases [where out = "output" and exec = exec
        and opts = opts and input = input and steps = steps])
  case no_destination
  with assms show ?thesis by (auto dest: in_set_butlastD)
next
  case no_gateway
  with assms show ?thesis by (auto dest: in_set_butlastD)
next
  case (panic k v)
  with assms show ?thesis by (auto dest: in_set_butlastD)
next
  case (originate d g p output' err)
  show ?thesis
  proof (cases "err \<noteq> None \<or> \<not> Success output'")
    case True
    with originate assms show ?thesis by auto
  next
    case False
    with originate assms(1) have
      "bridge_stage exec opts input
         (steps @ [Step (OriginateCall (originate_input input d g p)) output' err]) output'
       = (tr, res)"
      by simp
    moreover from False assms(2) have
      "\<forall>s \<in> set (steps @ [Step (OriginateCall (originate_input input d g p)) output' err]).
         \<not> unsuccessful s"
      by (auto simp: unsuccessful_def)
    ultimately show ?thesis by (rule bridge_stage_fail_fast)
  qed
qed

lemma dispatch_fail_fast:
  assumes "dispatch exec opts input steps output = (tr, res)"
    and "\<forall>s \<in> set steps. \<not> unsuccessful s"
  shows "\<forall>s \<in> set (butlast tr). \<not> unsuccessful s"
proof (cases rule: dispatch_cases [where out = "output" and exec = exec
        and opts = opts and input = input and steps = steps])
  case panic
  with assms show ?thesis by (auto dest: in_set_butlastD)
next
  case hangup
  with assms show ?thesis using hangup_branch_fail_fast by metis
next
  case originate
  with assms show ?thesis using originate_branch_fail_fast by metis
next
  case (no_op a)
  with assms show ?thesis by (auto dest: in_set_butlastD)
qed

lemma Handler_fail_fast:
  assumes "InboundWorkflow_Handler convert exec i = (tr, res)"
  shows "\<forall>s \<in> set (butlast tr). \<not> unsuccessful s"
proof (cases rule: Handler_cases [where convert = convert and exec = exec and i = i])
  case convert_fails
  with assms show ?thesis by auto
next
  case (session_init input output' err)
  show ?thesis
  proof (cases "err \<noteq> None \<or> \<not> Success output'")
    case True
    with session_init assms show ?thesis by auto
  next
    case False
    with session_init assms have
      "dispatch exec (activity_options input) input
         [Step (SessionInitCall (session_init_input input)) output' err] output' = (tr, res)"
      by simp
    moreover from False have
      "\<forall>s \<in> set [Step (SessionInitCall (session_init_input input)) output' err].
         \<not> unsuccessful s"
      by (auto simp: unsuccessful_def)
    ultimately show ?thesis by (rule dispatch_fail_fast)
  qed
qed

subsection \<open>A returned output is the one the last step delivered\<close>






subsection \<open>No assertion fails on strings\<close>




subsection \<open>The bridge activity, branch by branch\<close>

lemma BridgeActivity_Handler_convert_fails:
  "convert i = None \<Longrightarrow>
   BridgeActivity_Handler convert api i =
     ([], Returned \<lparr>Success = False, Metadata = Some Map.empty\<rparr>
            (Some (WorkflowInputError ''Cannot cast input to BridgeActivityInput'')))"
  by (simp add: BridgeActivity_Handler_def)

lemma BridgeActivity_Handler_api_fails:
  "convert i = Some input \<Longrightarrow>
   api \<lparr>AppName = ''uuid_bridge'', AppArgs = Originator input @ '' '' @ Originatee input\<rparr>
     = (res, Some e) \<Longrightarrow>
   BridgeActivity_Handler convert api i =
     ([\<lparr>AppName = ''uuid_bridge'', AppArgs = Originator input @ '' '' @ Originatee input\<rparr>],
      Returned \<lparr>Success = False, Metadata = Some Map.empty\<rparr> (Some e))"
  by (simp add: BridgeActivity_Handler_def Sprintf_v_v_def Let_def)

lemma BridgeActivity_Handler_api_succeeds:
  "convert i = Some input \<Longrightarrow>
   api \<lparr>AppName = ''uuid_bridge'', AppArgs = Originator input @ '' '' @ Originatee input\<rparr>
     = (res, None) \<Longrightarrow>
   BridgeActivity_Handler convert api i =
     ([\<lparr>AppName = ''uuid_bridge'', AppArgs = Originator input @ '' '' @ Originatee input\<rparr>],
      Returned \<lparr>Success = True, Metadata = Some [shared_Message \<mapsto> res]\<rparr> None)"
  by (simp add: BridgeActivity_Handler_def Sprintf_v_v_def Let_def Metadata_assign_def)

subsection \<open>The steps a stage adds, and runs with a successful originate step\<close>







lemma nth_in_butlast: "Suc k < length xs \<Longrightarrow> xs ! k \<in> set (butlast xs)"
  by (metis Suc_lessD in_set_conv_nth length_butlast less_diff_conv nth_butlast Suc_eq_plus1)

subsection \<open>The sample runs, evaluated\<close>

lemmas run_eval =
  InboundWorkflow_Handler_def dispatch_def hangup_branch_def originate_branch_def
  bridge_stage_def assign_if_present_def Metadata_index_def scripted_engine_def
  initial_output_def shared_keys shared_actions


lemma SessionId_sample_call: "InboundWorkflowInput.SessionId sample_call = ''S1''"
  by (simp add: sample_call_def)


lemma run_bridge_refused:
  "InboundWorkflow_Handler convert_inbound engine_bridge_refused (InboundPayload sample_call)
     = ([Step (SessionInitCall (session_init_input sample_call)) originate_to_gateway None,
         Step (OriginateCall (originate_input sample_call ''D'' ''G'' [])) leg_created None,
         Step (BridgeCall \<lparr>Originator = ''S1'', Originatee = ''X''\<rparr>) not_bridged None],
        Returned not_bridged None)"
  by (simp add: run_eval engine_bridge_refused_def originate_to_gateway_def leg_created_def
        not_bridged_def SessionId_sample_call)



lemma session_init_delivers:
  "engine_originate opts (SessionInitCall si) out = (originate_to_gateway, None)"
  "engine_bridge_refused opts (SessionInitCall si) out = (originate_to_gateway, None)"
  "engine_no_uid opts (SessionInitCall si) out = (originate_to_gateway, None)"
  "engine_uid_number opts (SessionInitCall si) out = (originate_to_gateway, None)"
  "engine_no_destination opts (SessionInitCall si) out = (originate_without_destination, None)"
  "engine_no_gateway opts (SessionInitCall si) out = (originate_without_gateway, None)"
  "engine_destination_number opts (SessionInitCall si) out = (originate_destination_number, None)"
  "engine_hangup opts (SessionInitCall si) out = (hangup_normal_clearing, None)"
  "engine_hangup_no_cause opts (SessionInitCall si) out = (hangup_without_cause, None)"
  "engine_hangup_cause_number opts (SessionInitCall si) out = (hangup_cause_number, None)"
  "engine_action_bridge opts (SessionInitCall si) out = (action_bridge, None)"
  "engine_action_transfer opts (SessionInitCall si) out = (action_transfer, None)"
  "engine_action_number opts (SessionInitCall si) out = (action_number, None)"
  "engine_action_missing opts (SessionInitCall si) out = (action_missing, None)"
  "engine_session_init_timed_out opts (SessionInitCall si) out
     = (session_init_timeout, Some (EngineError ''timeout''))"
  by (simp_all add: sample_engines scripted_engine_def)



lemma sample_metadata:
  "Success originate_to_gateway"
  "Metadata_index (Metadata originate_to_gateway) shared_Action = AStr ''originate''"
  "Metadata_index (Metadata originate_to_gateway) shared_Destination = AStr ''D''"
  "Metadata_index (Metadata originate_to_gateway) shared_Gateway = AStr ''G''"
  "Metadata_index (Metadata originate_to_gateway) shared_Profile = ANil"
  "Metadata_index (Metadata originate_to_gateway) shared_HangupCause = ANil"
  "Metadata_index (Metadata originate_to_gateway) shared_Uid = ANil"
  "Success originate_without_destination"
  "Metadata_index (Metadata originate_without_destination) shared_Action = AStr ''originate''"
  "Metadata_index (Metadata originate_without_destination) shared_Destination = ANil"
  "Success originate_without_gateway"
  "Metadata_index (Metadata originate_without_gateway) shared_Action = AStr ''originate''"
  "Metadata_index (Metadata originate_without_gateway) shared_Destination = AOther 5"
  "Metadata_index (Metadata originate_without_gateway) shared_Gateway = ANil"
  "Success originate_destination_number"
  "Metadata_index (Metadata originate_destination_number) shared_Action = AStr ''originate''"
  "Metadata_index (Metadata originate_destination_number) shared_Destination = AOther 5"
  "Metadata_index (Metadata originate_destination_number) shared_Gateway = AStr ''G''"
  "Success hangup_normal_clearing"
  "Metadata_index (Metadata hangup_normal_clearing) shared_Action = AStr ''hangup''"
  "Metadata_index (Metadata hangup_normal_clearing) shared_HangupCause = AStr ''NORMAL_CLEARING''"
  "Success hangup_without_cause"
  "Metadata_index (Metadata hangup_without_cause) shared_Action = AStr ''hangup''"
  "Metadata_index (Metadata hangup_without_cause) shared_HangupCause = ANil"
  "Success hangup_cause_number"
  "Metadata_index (Metadata hangup_cause_number) shared_Action = AStr ''hangup''"
  "Metadata_index (Metadata hangup_cause_number) shared_HangupCause = AOther 16"
  "Success action_bridge"
  "Metadata_index (Metadata action_bridge) shared_Action = AStr ''bridge''"
  "Success action_transfer"
  "Metadata_index (Metadata action_transfer) shared_Action = AStr ''transfer''"
  "Success action_number"
  "Metadata_index (Metadata action_number) shared_Action = AOther 7"
  "Success action_missing"
  "Metadata_index (Metadata action_missing) shared_Action = ANil"
  "Success leg_created"
  "Metadata_index (Metadata leg_created) shared_Uid = AStr ''X''"
  "Success leg_without_uid"
  "Metadata_index (Metadata leg_without_uid) shared_Uid = ANil"
  "Success leg_uid_number"
  "Metadata_index (Metadata leg_uid_number) shared_Uid = AOther 9"
  "\<not> Success session_init_timeout"
  "\<not> Success not_bridged"
  "\<not> Success not_hung_up"
  by (simp_all add: sample_outputs Metadata_index_def shared_keys)

section \<open>The claims\<close>

subsection \<open>Originate, then bridge\<close>



subsection \<open>Originate without destination or gateway\<close>

text \<open>
  Claim C2.  For every run in which the session-init activity delivers \<open>success = true\<close>
  with action \<open>"originate"\<close>: if the metadata holds no destination, the workflow ends
  with the missing-field error for \<open>destination\<close>; if it holds a destination and no
  gateway, with the missing-field error for \<open>gateway\<close>.  In both cases the session-init
  step is the only step of the run: the originate activity is never scheduled.
\<close>

theorem originate_requires_destination_and_gateway:
  assumes "convert i = Some input"
    and "exec (activity_options input) (SessionInitCall (session_init_input input))
           initial_output = (out1, None)"
    and "Success out1"
    and "Metadata_index (Metadata out1) shared_Action = AStr ''originate''"
  shows "(Metadata_index (Metadata out1) shared_Destination = ANil \<longrightarrow>
            InboundWorkflow_Handler convert exec i
              = ([Step (SessionInitCall (session_init_input input)) out1 None],
                 Returned out1 (Some (RequireField ''destination''))))
       \<and> (Metadata_index (Metadata out1) shared_Destination \<noteq> ANil
            \<and> Metadata_index (Metadata out1) shared_Gateway = ANil \<longrightarrow>
            InboundWorkflow_Handler convert exec i
              = ([Step (SessionInitCall (session_init_input input)) out1 None],
                 Returned out1 (Some (RequireField ''gateway''))))"
  using assms
  by (simp add: Handler_session_init dispatch_action originate_branch_no_destination
        originate_branch_no_gateway)

theorem originate_requires_destination_and_gateway_witness:
  "InboundWorkflow_Handler convert_inbound engine_no_destination (InboundPayload sample_call)
     = ([Step (SessionInitCall (session_init_input sample_call)) originate_without_destination
           None],
        Returned originate_without_destination (Some (RequireField ''destination'')))
   \<and> InboundWorkflow_Handler convert_inbound engine_no_gateway (InboundPayload sample_call)
     = ([Step (SessionInitCall (session_init_input sample_call)) originate_without_gateway None],
        Returned originate_without_gateway (Some (RequireField ''gateway'')))"
  using originate_requires_destination_and_gateway
          [where convert = convert_inbound and i = "InboundPayload sample_call"
             and input = sample_call and exec = engine_no_destination
             and ?out1.0 = originate_without_destination]
        originate_requires_destination_and_gateway
          [where convert = convert_inbound and i = "InboundPayload sample_call"
             and input = sample_call and exec = engine_no_gateway
             and ?out1.0 = originate_without_gateway]
  by (simp add: sample_metadata session_init_delivers)

subsection \<open>The bridge command\<close>

text \<open>
  Claim C3.  For every originator \<open>A\<close> and originatee \<open>B\<close>, a run of the bridge
  activity on the input \<open>{originator: A, originatee: B}\<close> sends the switch exactly one
  command, and that command is \<open>{appName: "uuid_bridge", appArgs: A ++ " " ++ B}\<close>;
  whatever the switch answers.
\<close>

theorem BridgeActivity_issues_one_uuid_bridge:
  assumes "convert i = Some \<lparr>Originator = A, Originatee = B\<rparr>"
  shows "fst (BridgeActivity_Handler convert api i)
           = [\<lparr>AppName = ''uuid_bridge'', AppArgs = A @ '' '' @ B\<rparr>]"
proof (cases "api \<lparr>AppName = ''uuid_bridge'', AppArgs = A @ '' '' @ B\<rparr>")
  case (Pair res err)
  show ?thesis
  proof (cases err)
    case None
    with Pair assms show ?thesis
      by (simp add: BridgeActivity_Handler_api_succeeds)
  next
    case (Some e)
    with Pair assms show ?thesis
      by (simp add: BridgeActivity_Handler_api_fails)
  qed
qed

theorem BridgeActivity_issues_one_uuid_bridge_witness:
  "convert_bridge (BridgePayload \<lparr>Originator = ''A'', Originatee = ''B''\<rparr>)
     = Some \<lparr>Originator = ''A'', Originatee = ''B''\<rparr>
   \<and> fst (BridgeActivity_Handler convert_bridge api_ok
            (BridgePayload \<lparr>Originator = ''A'', Originatee = ''B''\<rparr>))
     = [\<lparr>AppName = ''uuid_bridge'', AppArgs = ''A B''\<rparr>]
   \<and> fst (BridgeActivity_Handler convert_bridge api_down
            (BridgePayload \<lparr>Originator = ''A'', Originatee = ''B''\<rparr>))
     = [\<lparr>AppName = ''uuid_bridge'', AppArgs = ''A B''\<rparr>]"
  using BridgeActivity_issues_one_uuid_bridge
          [of convert_bridge "BridgePayload \<lparr>Originator = ''A'', Originatee = ''B''\<rparr>"
              "''A''" "''B''" api_ok]
        BridgeActivity_issues_one_uuid_bridge
          [of convert_bridge "BridgePayload \<lparr>Originator = ''A'', Originatee = ''B''\<rparr>"
              "''A''" "''B''" api_down]
  by simp

subsection \<open>The hangup branch\<close>




subsection \<open>Fail fast\<close>

text \<open>
  Claim C5.  For every run, if the session-init activity returns an error or an output
  with \<open>success = false\<close>, the workflow returns that output and that error at once, the
  session-init step being the only step of the run.  More generally, in every run every
  step that is followed by another step was successful: the workflow never schedules an
  activity after a step that failed or delivered \<open>success = false\<close>.
\<close>

theorem fail_fast:
  "(convert i = Some input
      \<and> exec (activity_options input) (SessionInitCall (session_init_input input))
            initial_output = (out1, err1)
      \<and> (err1 \<noteq> None \<or> \<not> Success out1) \<longrightarrow>
    InboundWorkflow_Handler convert exec i
      = ([Step (SessionInitCall (session_init_input input)) out1 err1], Returned out1 err1))
   \<and> (\<forall>k. Suc k < length (fst (InboundWorkflow_Handler convert exec i)) \<longrightarrow>
          \<not> unsuccessful (fst (InboundWorkflow_Handler convert exec i) ! k))"
proof (intro conjI impI allI)
  assume "convert i = Some input
      \<and> exec (activity_options input) (SessionInitCall (session_init_input input))
            initial_output = (out1, err1)
      \<and> (err1 \<noteq> None \<or> \<not> Success out1)"
  then show "InboundWorkflow_Handler convert exec i
      = ([Step (SessionInitCall (session_init_input input)) out1 err1], Returned out1 err1)"
    by (auto simp add: Handler_session_init)
next
  fix k
  assume k: "Suc k < length (fst (InboundWorkflow_Handler convert exec i))"
  obtain tr res where run: "InboundWorkflow_Handler convert exec i = (tr, res)"
    by (cases "InboundWorkflow_Handler convert exec i")
  then have "\<forall>s \<in> set (butlast tr). \<not> unsuccessful s"
    by (rule Handler_fail_fast)
  moreover from k run have "tr ! k \<in> set (butlast tr)"
    by (simp add: nth_in_butlast)
  ultimately show "\<not> unsuccessful (fst (InboundWorkflow_Handler convert exec i) ! k)"
    using run by simp
qed

theorem fail_fast_witness:
  "InboundWorkflow_Handler convert_inbound engine_session_init_timed_out
       (InboundPayload sample_call)
     = ([Step (SessionInitCall (session_init_input sample_call)) session_init_timeout
           (Some (EngineError ''timeout''))],
        Returned session_init_timeout (Some (EngineError ''timeout'')))
   \<and> Suc 1 < length (fst (InboundWorkflow_Handler convert_inbound engine_bridge_refused
                            (InboundPayload sample_call)))
   \<and> \<not> unsuccessful (fst (InboundWorkflow_Handler convert_inbound engine_bridge_refused
                              (InboundPayload sample_call)) ! 1)
   \<and> unsuccessful (fst (InboundWorkflow_Handler convert_inbound engine_bridge_refused
                            (InboundPayload sample_call)) ! 2)"
proof -
  let ?run = "InboundWorkflow_Handler convert_inbound engine_bridge_refused
                (InboundPayload sample_call)"
  have "InboundWorkflow_Handler convert_inbound engine_session_init_timed_out
          (InboundPayload sample_call)
        = ([Step (SessionInitCall (session_init_input sample_call)) session_init_timeout
              (Some (EngineError ''timeout''))],
           Returned session_init_timeout (Some (EngineError ''timeout'')))"
    using fail_fast [where convert = convert_inbound and i = "InboundPayload sample_call"
                       and input = sample_call and exec = engine_session_init_timed_out
                       and ?out1.0 = session_init_timeout
                       and ?err1.0 = "Some (EngineError ''timeout'')"]
    by (simp add: session_init_delivers)
  moreover have len: "Suc 1 < length (fst ?run)"
    by (simp add: run_bridge_refused)
  moreover from len have "\<not> unsuccessful (fst ?run ! 1)"
    using fail_fast [where convert = convert_inbound and i = "InboundPayload sample_call"
                       and exec = engine_bridge_refused]
    by blast
  moreover have "unsuccessful (fst ?run ! 2)"
    by (simp add: run_bridge_refused unsuccessful_def sample_metadata)
  ultimately show ?thesis by simp
qed

subsection \<open>The processor factory\<close>

text \<open>
  Claim C6.  For every action key \<open>s\<close>, \<open>CreateActivityProcessor\<close> returns an
  originate, bridge or hangup processor exactly when \<open>s\<close> is \<open>"originate"\<close>,
  \<open>"bridge"\<close> or \<open>"hangup"\<close>, then with no error; for every other key it returns no
  processor and the unsupported-action error, which the code builds with
  \<open>shared.NewWorkflowInputError("unsupported action")\<close>.
\<close>

theorem CreateActivityProcessor_dispatch:
  "((\<exists>c. fst (CreateActivityProcessor f s) = Some (OriginateProcessor c)) \<longleftrightarrow> s = ''originate'')
   \<and> ((\<exists>c. fst (CreateActivityProcessor f s) = Some (BridgeProcessor c)) \<longleftrightarrow> s = ''bridge'')
   \<and> ((\<exists>c. fst (CreateActivityProcessor f s) = Some (HangupProcessor c)) \<longleftrightarrow> s = ''hangup'')
   \<and> (s = ''originate'' \<longrightarrow>
         CreateActivityProcessor f s = (Some (OriginateProcessor (fsClient f)), None))
   \<and> (s = ''bridge'' \<longrightarrow>
         CreateActivityProcessor f s = (Some (BridgeProcessor (fsClient f)), None))
   \<and> (s = ''hangup'' \<longrightarrow>
         CreateActivityProcessor f s = (Some (HangupProcessor (fsClient f)), None))
   \<and> (s \<noteq> ''originate'' \<and> s \<noteq> ''bridge'' \<and> s \<noteq> ''hangup'' \<longrightarrow>
         CreateActivityProcessor f s = (None, Some (WorkflowInputError ''unsupported action'')))"
  by (simp add: CreateActivityProcessor_def shared_action_keys)

theorem CreateActivityProcessor_dispatch_witness:
  "CreateActivityProcessor (NewFreeswitchProcessorFactory (7::nat)) ''bridge''
     = (Some (BridgeProcessor 7), None)
   \<and> CreateActivityProcessor (NewFreeswitchProcessorFactory (7::nat)) ''unknown''
     = (None, Some (WorkflowInputError ''unsupported action''))"
  using CreateActivityProcessor_dispatch [of "NewFreeswitchProcessorFactory (7::nat)" "''bridge''"]
        CreateActivityProcessor_dispatch [of "NewFreeswitchProcessorFactory (7::nat)" "''unknown''"]
  by (simp add: NewFreeswitchProcessorFactory_def)

subsection \<open>Payloads that cannot be converted\<close>

text \<open>
  Claim C7.  For every payload that \<open>shared.Convert\<close> cannot turn into the typed input,
  the bridge activity returns an output with \<open>success = false\<close> together with an input
  error and sends the switch no command; likewise the workflow, for its own input, returns
  such an output with an input error and schedules no activity.
\<close>

theorem conversion_failure_is_input_error:
  "(convert_b i = None \<longrightarrow>
      BridgeActivity_Handler convert_b api i
        = ([], Returned \<lparr>Success = False, Metadata = Some Map.empty\<rparr>
                 (Some (WorkflowInputError ''Cannot cast input to BridgeActivityInput''))))
   \<and> (convert_w j = None \<longrightarrow>
      InboundWorkflow_Handler convert_w exec j
        = ([], Returned \<lparr>Success = False, Metadata = Some Map.empty\<rparr>
                 (Some (WorkflowInputError ''Cannot cast input to InboundWorkflowInput''))))"
  by (simp add: BridgeActivity_Handler_convert_fails Handler_convert_fails initial_output_def)

theorem conversion_failure_is_input_error_witness:
  "convert_bridge Malformed = None
   \<and> BridgeActivity_Handler convert_bridge api_ok Malformed
        = ([], Returned \<lparr>Success = False, Metadata = Some Map.empty\<rparr>
                 (Some (WorkflowInputError ''Cannot cast input to BridgeActivityInput'')))
   \<and> convert_inbound Malformed = None
   \<and> InboundWorkflow_Handler convert_inbound
        engine_originate Malformed
        = ([], Returned \<lparr>Success = False, Metadata = Some Map.empty\<rparr>
                 (Some (WorkflowInputError ''Cannot cast input to InboundWorkflowInput'')))"
  using conversion_failure_is_input_error
          [of convert_bridge Malformed api_ok convert_inbound Malformed engine_originate]
  by simp

subsection \<open>The output envelope\<close>



subsection \<open>The bridge action and unrecognized actions\<close>

text \<open>
  Claim C9 says that in every run in which the session-init activity delivers
  \<open>success = true\<close> with an action value that is none of \<open>"bridge"\<close>, \<open>"hangup"\<close>,
  \<open>"originate"\<close>, the workflow completes as a no-op success.  That fails when the action
  value is not a string: line 95 asserts it to be a string before the switch, and the
  assertion panics.  In the run below the action is a number; the handler panics and
  returns nothing.
\<close>

theorem action_not_a_string_counterexample:
  "convert_inbound (InboundPayload sample_call) = Some sample_call
   \<and> engine_action_number (activity_options sample_call)
        (SessionInitCall (session_init_input sample_call)) initial_output
       = (action_number, None)
   \<and> Success action_number
   \<and> Metadata_index (Metadata action_number) shared_Action = AOther 7
   \<and> InboundWorkflow_Handler convert_inbound engine_action_number (InboundPayload sample_call)
       = ([Step (SessionInitCall (session_init_input sample_call)) action_number None],
          Panicked)"
  by (simp add: sample_metadata session_init_delivers Handler_session_init
        dispatch_action_not_string)

text \<open>
  Claim C9, amended.  For every run in which the session-init activity delivers
  \<open>success = true\<close> with a string under \<open>action\<close> that is neither \<open>"hangup"\<close> nor
  \<open>"originate"\<close> (that is: \<open>"bridge"\<close>, or a string that is none of the three action
  literals), the workflow schedules no further activity and returns the output of the
  session-init activity with no error.
\<close>

theorem unrecognized_action_is_no_op:
  assumes conv: "convert i = Some input"
    and init: "exec (activity_options input) (SessionInitCall (session_init_input input))
                 initial_output = (out1, None)"
      "Success out1"
      "Metadata_index (Metadata out1) shared_Action = AStr a"
    and other: "a \<noteq> ''hangup''" "a \<noteq> ''originate''"
  shows "InboundWorkflow_Handler convert exec i
           = ([Step (SessionInitCall (session_init_input input)) out1 None], Returned out1 None)"
  using assms by (auto simp add: Handler_session_init dispatch_action)

theorem unrecognized_action_is_no_op_witness:
  "InboundWorkflow_Handler convert_inbound engine_action_transfer (InboundPayload sample_call)
     = ([Step (SessionInitCall (session_init_input sample_call)) action_transfer None],
        Returned action_transfer None)
   \<and> InboundWorkflow_Handler convert_inbound engine_action_bridge (InboundPayload sample_call)
     = ([Step (SessionInitCall (session_init_input sample_call)) action_bridge None],
        Returned action_bridge None)"
  using unrecognized_action_is_no_op
          [where convert = convert_inbound and i = "InboundPayload sample_call"
             and input = sample_call and exec = engine_action_transfer
             and ?out1.0 = action_transfer and a = "''transfer''"]
        unrecognized_action_is_no_op
          [where convert = convert_inbound and i = "InboundPayload sample_call"
             and input = sample_call and exec = engine_action_bridge
             and ?out1.0 = action_bridge and a = "''bridge''"]
  by (simp add: sample_metadata session_init_delivers)

subsection \<open>The unchecked type assertions\<close>



end
